theory Spec2Isabelle
  imports Main "HOL-Library.Word"
begin

unbundle bit_operations_syntax

section \<open>Values, errors and the environment of \<open>pgcrypto/fields.py\<close>\<close>

text \<open>
  Python \<open>bytes\<close> are lists of 8-bit words. A Python \<open>str\<close> that carries data (a
  plaintext, an envelope, a textual key) is a list of Unicode code points; names of
  ciphers, charsets and lookups and the fragments of SQL text are ASCII program text
  and are written as \<open>string\<close>.
\<close>

type_synonym byte = "8 word"
type_synonym bytes = "byte list"
type_synonym pystr = "nat list"

text \<open>The Python values a field receives, stores and binds as query parameters.\<close>

datatype pyval = PNone | PStr pystr | PBytes bytes | PInt int

text \<open>Python truthiness, as \<open>if value and ...\<close> reads it.\<close>

fun truthy :: "pyval \<Rightarrow> bool" where
  "truthy PNone = False"
| "truthy (PStr s) = (s \<noteq> [])"
| "truthy (PBytes b) = (b \<noteq> [])"
| "truthy (PInt n) = (n \<noteq> 0)"

text \<open>A cipher key is given as bytes or as text (\<open>six.text_type\<close>).\<close>

datatype pykey = KBytes bytes | KText pystr

fun key_value :: "pykey \<Rightarrow> pyval" where
  "key_value (KBytes b) = PBytes b"
| "key_value (KText t) = PStr t"

text \<open>
  Every \<open>raise\<close> of the code and of what it calls is a value. \<open>DecodeError\<close> is the
  decode error of the padding codec.
\<close>

datatype error =
    AssertionError
  | AttributeError
  | KeyError
  | TypeError
  | ValueError
  | LookupError
  | UnicodeEncodeError
  | UnicodeDecodeError
  | NotImplementedError string
  | DecodeError
  | FormatError

subsection \<open>The settings dictionary \<open>settings.PGCRYPTO\<close>\<close>

record settings =
  valid_ciphers :: "string list"
  check_armor :: bool
  versioned :: bool
  default_cipher :: string

text \<open>The defaults of the four \<open>settings.PGCRYPTO.get\<close> calls.\<close>

definition default_settings :: settings where
  "default_settings =
     \<lparr>valid_ciphers = [''AES'', ''Blowfish''], check_armor = True, versioned = False,
      default_cipher = ''AES''\<rparr>"

subsection \<open>The padding codec\<close>

text \<open>
  Modelled from the spec: \<open>pad\<close> of the module \<open>pgcrypto/base.py\<close>, which is not among
  the source files. It appends N bytes of value N, with N between 1 and the block size,
  so that the length becomes a multiple of the block size; an aligned input gets a full
  block.
\<close>

definition pad :: "bytes \<Rightarrow> nat \<Rightarrow> bytes" where
  "pad b block_size =
     (let num = block_size - length b mod block_size
      in b @ replicate num (of_nat num))"

text \<open>
  Modelled from the spec: \<open>unpad\<close> of the module \<open>pgcrypto/base.py\<close>, which is not
  among the source files. It reads the final byte as the count, checks that the count
  lies in 1..block size and that the input is non-empty and block aligned, and strips
  that many bytes; otherwise it fails with a decode error.
\<close>

definition unpad :: "bytes \<Rightarrow> nat \<Rightarrow> error + bytes" where
  "unpad b block_size =
     (if b = [] \<or> length b mod block_size \<noteq> 0 then Inl DecodeError
      else let n = unat (last b)
           in if n < 1 \<or> block_size < n then Inl DecodeError
              else Inr (take (length b - n) b))"

subsection \<open>The block cipher in CBC mode\<close>

text \<open>
  \<open>Cryptodome.Cipher.<name>\<close> is a library outside the repository. A cipher class is
  its block size, the key lengths it accepts and the keyed permutation of blocks with
  its inverse; the chaining of \<open>MODE_CBC\<close> is written out below.
\<close>

record cipher_class =
  block_size :: nat
  key_size_ok :: "nat \<Rightarrow> bool"
  block_encrypt :: "bytes \<Rightarrow> bytes \<Rightarrow> bytes"
  block_decrypt :: "bytes \<Rightarrow> bytes \<Rightarrow> bytes"

definition xor_bytes :: "bytes \<Rightarrow> bytes \<Rightarrow> bytes" where
  "xor_bytes a b = map2 (XOR) a b"

function cbc_encrypt :: "(bytes \<Rightarrow> bytes) \<Rightarrow> nat \<Rightarrow> bytes \<Rightarrow> bytes \<Rightarrow> bytes" where
  "cbc_encrypt E bs prev data =
     (if bs = 0 \<or> data = [] then []
      else let c = E (xor_bytes (take bs data) prev)
           in c @ cbc_encrypt E bs c (drop bs data))"
  by pat_completeness auto
termination
  by (relation "measure (\<lambda>(E, bs, prev, data). length data)") auto

function cbc_decrypt :: "(bytes \<Rightarrow> bytes) \<Rightarrow> nat \<Rightarrow> bytes \<Rightarrow> bytes \<Rightarrow> bytes" where
  "cbc_decrypt D bs prev data =
     (if bs = 0 \<or> data = [] then []
      else let c = take bs data
           in xor_bytes (D c) prev @ cbc_decrypt D bs c (drop bs data))"
  by pat_completeness auto
termination
  by (relation "measure (\<lambda>(D, bs, prev, data). length data)") auto

declare cbc_encrypt.simps [simp del]
declare cbc_decrypt.simps [simp del]

text \<open>
  The object \<open>cipher_class.new(key, MODE_CBC, iv)\<close> returns: the class, the key and the
  chaining value it starts from. \<open>new\<close> refuses a textual key and a key of a length
  the class does not accept; \<open>encrypt\<close> and \<open>decrypt\<close> refuse data that is not block
  aligned.
\<close>

record cbc_context =
  ctx_class :: cipher_class
  ctx_key :: bytes
  ctx_iv :: bytes

definition cipher_new :: "cipher_class \<Rightarrow> pykey \<Rightarrow> bytes \<Rightarrow> error + cbc_context" where
  "cipher_new cls key iv =
     (case key of
        KText t \<Rightarrow> Inl TypeError
      | KBytes k \<Rightarrow>
          if \<not> key_size_ok cls (length k) then Inl ValueError
          else if length iv \<noteq> block_size cls then Inl ValueError
          else Inr \<lparr>ctx_class = cls, ctx_key = k, ctx_iv = iv\<rparr>)"

definition ctx_encrypt :: "cbc_context \<Rightarrow> bytes \<Rightarrow> error + bytes" where
  "ctx_encrypt ctx data =
     (let cls = ctx_class ctx
      in if length data mod block_size cls \<noteq> 0 then Inl ValueError
         else Inr (cbc_encrypt (block_encrypt cls (ctx_key ctx)) (block_size cls) (ctx_iv ctx) data))"

definition ctx_decrypt :: "cbc_context \<Rightarrow> bytes \<Rightarrow> error + bytes" where
  "ctx_decrypt ctx data =
     (let cls = ctx_class ctx
      in if length data mod block_size cls \<noteq> 0 then Inl ValueError
         else Inr (cbc_decrypt (block_decrypt cls (ctx_key ctx)) (block_size cls) (ctx_iv ctx) data))"

text \<open>
  What the library promises of a cipher class at a key: on blocks of the class's size,
  \<open>block_encrypt\<close> keeps the size and \<open>block_decrypt\<close> undoes it.
\<close>

definition block_permutation :: "(bytes \<Rightarrow> bytes) \<Rightarrow> (bytes \<Rightarrow> bytes) \<Rightarrow> nat \<Rightarrow> bool" where
  "block_permutation E D bs =
     (\<forall>b. length b = bs \<longrightarrow> length (E b) = bs \<and> D (E b) = b)"

subsection \<open>What the module imports\<close>

text \<open>
  \<open>from .base import aes_pad_key, armor, dearmor, pad, unpad, is_encrypted\<close>: the module
  \<open>pgcrypto/base.py\<close> is not among the source files. \<open>pad\<close> and \<open>unpad\<close> are modelled
  above; the other four functions are parameters of the model, so that every theorem
  about \<open>fields.py\<close> holds for whatever they compute.
\<close>

record base_module =
  aes_pad_key :: "bytes \<Rightarrow> bytes"
  armor :: "bytes \<Rightarrow> bool \<Rightarrow> pystr"
  dearmor :: "pyval \<Rightarrow> bool \<Rightarrow> error + bytes"
  is_encrypted :: "pyval \<Rightarrow> bool"

text \<open>
  Modelled from the spec: the contract of \<open>armor\<close> and \<open>dearmor\<close> of
  \<open>pgcrypto/base.py\<close>, which is not among the source files: \<open>dearmor\<close> reverses
  \<open>armor\<close>, here under the two flags the settings fix.
\<close>

definition armor_roundtrip :: "base_module \<Rightarrow> settings \<Rightarrow> bool" where
  "armor_roundtrip B S =
     (\<forall>x. dearmor B (PStr (armor B x (versioned S))) (check_armor S) = Inr x)"

text \<open>
  Python and Django: \<open>force_bytes(value, charset)\<close>, \<open>str.encode(charset)\<close>,
  \<open>bytes.decode(charset)\<close>, and the attribute \<open>name\<close> of the package
  \<open>Cryptodome.Cipher\<close>. They are parameters as well.
\<close>

record python =
  force_bytes :: "pyval \<Rightarrow> string \<Rightarrow> error + bytes"
  str_encode :: "pystr \<Rightarrow> string \<Rightarrow> error + bytes"
  bytes_decode :: "bytes \<Rightarrow> string \<Rightarrow> error + pystr"
  import_cipher :: "string \<Rightarrow> cipher_class option"

section \<open>class Cipher\<close>

record Cipher =
  name :: string
  cipher_key :: pykey
  charset :: string
  cipher_class :: cipher_class

text \<open>
  \<open>Cipher.__init__\<close>: the assertion on the name, then \<open>self.__cipher_key = key\<close>, which
  writes the attribute itself and does not go through the property's setter, then the
  lookup of the cipher class.
\<close>

definition Cipher_init :: "settings \<Rightarrow> python \<Rightarrow> string \<Rightarrow> pykey \<Rightarrow> string \<Rightarrow> error + Cipher" where
  "Cipher_init S P nm key cs =
     (if nm \<notin> set (valid_ciphers S) then Inl AssertionError
      else case import_cipher P nm of
             None \<Rightarrow> Inl AttributeError
           | Some cls \<Rightarrow> Inr \<lparr>name = nm, cipher_key = key, charset = cs, cipher_class = cls\<rparr>)"

text \<open>The setter of the property \<open>cipher_key\<close>; the new state of the object is returned.\<close>

definition set_cipher_key :: "python \<Rightarrow> base_module \<Rightarrow> Cipher \<Rightarrow> pykey \<Rightarrow> error + Cipher" where
  "set_cipher_key P B c v =
     (if name c = ''AES'' then
        (case v of
           KText t \<Rightarrow>
             (case str_encode P t (charset c) of
                Inl e \<Rightarrow> Inl e
              | Inr b \<Rightarrow> Inr (c\<lparr>cipher_key := KBytes (aes_pad_key B b)\<rparr>))
         | KBytes b \<Rightarrow> Inr (c\<lparr>cipher_key := KBytes (aes_pad_key B b)\<rparr>))
      else Inr (c\<lparr>cipher_key := v\<rparr>))"

text \<open>\<open>get_cipher\<close>: a new context for every call, its chaining value the zero block.\<close>

definition get_cipher :: "Cipher \<Rightarrow> error + cbc_context" where
  "get_cipher c =
     cipher_new (cipher_class c) (cipher_key c) (replicate (block_size (cipher_class c)) 0)"

definition encrypt :: "python \<Rightarrow> base_module \<Rightarrow> settings \<Rightarrow> Cipher \<Rightarrow> pyval \<Rightarrow> error + pystr" where
  "encrypt P B S c v =
     (case force_bytes P v (charset c) of
        Inl e \<Rightarrow> Inl e
      | Inr b \<Rightarrow>
          let padded = pad b (block_size (cipher_class c))
          in (case get_cipher c of
                Inl e \<Rightarrow> Inl e
              | Inr ctx \<Rightarrow>
                  (case ctx_encrypt ctx padded of
                     Inl e \<Rightarrow> Inl e
                   | Inr encryted \<Rightarrow> Inr (armor B encryted (versioned S)))))"

definition decrypt :: "python \<Rightarrow> base_module \<Rightarrow> settings \<Rightarrow> Cipher \<Rightarrow> pyval \<Rightarrow> error + pystr" where
  "decrypt P B S c v =
     (case dearmor B v (check_armor S) of
        Inl e \<Rightarrow> Inl e
      | Inr dearmored \<Rightarrow>
          (case get_cipher c of
             Inl e \<Rightarrow> Inl e
           | Inr ctx \<Rightarrow>
               (case ctx_decrypt ctx dearmored of
                  Inl e \<Rightarrow> Inl e
                | Inr decrypted \<Rightarrow>
                    (case unpad decrypted (block_size (cipher_class c)) of
                       Inl e \<Rightarrow> Inl e
                     | Inr unpadded \<Rightarrow> bytes_decode P unpadded (charset c)))))"

text \<open>
  The right-hand side of the spec's contract for \<open>decrypt\<close>, in its words: unpad applied
  to the block-cipher decryption of the dearmored value. It stops at the bytes; it is
  compared with \<open>decrypt\<close> below.
\<close>

definition unpad_decrypt_dearmor :: "base_module \<Rightarrow> settings \<Rightarrow> Cipher \<Rightarrow> pyval \<Rightarrow> error + bytes" where
  "unpad_decrypt_dearmor B S c e =
     (case dearmor B e (check_armor S) of
        Inl x \<Rightarrow> Inl x
      | Inr dearmored \<Rightarrow>
          (case get_cipher c of
             Inl x \<Rightarrow> Inl x
           | Inr ctx \<Rightarrow>
               (case ctx_decrypt ctx dearmored of
                  Inl x \<Rightarrow> Inl x
                | Inr decrypted \<Rightarrow> unpad decrypted (block_size (cipher_class c)))))"

section \<open>class BaseEncryptedField and its subclasses\<close>

datatype field_class =
    BaseEncryptedField
  | EncryptedTextField
  | EncryptedCharField
  | EncryptedIntegerField
  | EncryptedDecimalField
  | EncryptedDateField
  | EncryptedDateTimeField
  | EncryptedEmailField

text \<open>The class attribute \<open>field_cast\<close>, inherited where a subclass does not set it.\<close>

fun field_cast_of :: "field_class \<Rightarrow> string" where
  "field_cast_of BaseEncryptedField = []"
| "field_cast_of EncryptedTextField = []"
| "field_cast_of EncryptedCharField = []"
| "field_cast_of EncryptedIntegerField = ''::integer''"
| "field_cast_of EncryptedDecimalField = ''::numeric''"
| "field_cast_of EncryptedDateField = ''::date''"
| "field_cast_of EncryptedDateTimeField = ''timestamp with time zone''"
| "field_cast_of EncryptedEmailField = []"

record encrypted_field =
  field_class :: field_class
  cipher :: Cipher

definition field_cast :: "encrypted_field \<Rightarrow> string" where
  "field_cast f = field_cast_of (field_class f)"

text \<open>
  \<open>BaseEncryptedField.__init__\<close>: the keyword arguments \<open>key\<close> and \<open>charset\<close> are
  optional, with the defaults \<open>b''\<close> and \<open>'utf-8'\<close>.
\<close>

definition field_init ::
  "settings \<Rightarrow> python \<Rightarrow> field_class \<Rightarrow> pykey option \<Rightarrow> string option \<Rightarrow> error + encrypted_field" where
  "field_init S P fc key cs =
     (case Cipher_init S P (default_cipher S)
             (case key of None \<Rightarrow> KBytes [] | Some k \<Rightarrow> k)
             (case cs of None \<Rightarrow> ''utf-8'' | Some n \<Rightarrow> n) of
        Inl e \<Rightarrow> Inl e
      | Inr c \<Rightarrow> Inr \<lparr>field_class = fc, cipher = c\<rparr>)"

definition to_python ::
  "python \<Rightarrow> base_module \<Rightarrow> settings \<Rightarrow> encrypted_field \<Rightarrow> pyval \<Rightarrow> error + pyval" where
  "to_python P B S f v =
     (if is_encrypted B v then
        (case decrypt P B S (cipher f) v of Inl e \<Rightarrow> Inl e | Inr t \<Rightarrow> Inr (PStr t))
      else Inr v)"

text \<open>
  \<open>from_db_value\<close> assigns to \<open>self.cipher.cipher_key\<close> and then calls
  \<open>self.to_python\<close>. The assignment changes the field, so the field is returned with
  the result; when the setter raises, nothing was assigned. \<open>self.to_python\<close> is the
  method of the field's own class: the subclasses for numbers and dates wrap the base
  method in parsers of Python and Django, so the method is the parameter \<open>tp\<close>.
  \<open>context\<close> is the dictionary of the call.
\<close>

definition from_db_value ::
  "python \<Rightarrow> base_module \<Rightarrow> (encrypted_field \<Rightarrow> pyval \<Rightarrow> error + pyval) \<Rightarrow>
   encrypted_field \<Rightarrow> pyval \<Rightarrow> (string \<rightharpoonup> pykey) \<Rightarrow> encrypted_field \<times> (error + pyval)" where
  "from_db_value P B tp f v context =
     (let k = (case context ''cipher_key'' of
                 Some k \<Rightarrow> k
               | None \<Rightarrow> cipher_key (cipher f))
      in case set_cipher_key P B (cipher f) k of
           Inl e \<Rightarrow> (f, Inl e)
         | Inr c \<Rightarrow> (let f' = f\<lparr>cipher := c\<rparr> in (f', tp f' v)))"

text \<open>
  The key \<open>from_db_value\<close> assigns: \<open>context.get('cipher_key', self.cipher.cipher_key)\<close>,
  the key of the context when it has one and the current key otherwise.
\<close>

definition context_key :: "(string \<rightharpoonup> pykey) \<Rightarrow> encrypted_field \<Rightarrow> pykey" where
  "context_key context f =
     (case context ''cipher_key'' of Some k \<Rightarrow> k | None \<Rightarrow> cipher_key (cipher f))"

definition get_db_prep_save ::
  "python \<Rightarrow> base_module \<Rightarrow> settings \<Rightarrow> encrypted_field \<Rightarrow> pyval \<Rightarrow> error + pyval" where
  "get_db_prep_save P B S f v =
     (if truthy v \<and> \<not> is_encrypted B v then
        (case encrypt P B S (cipher f) v of Inl e \<Rightarrow> Inl e | Inr a \<Rightarrow> Inr (PStr a))
      else Inr v)"

section \<open>class EncryptedLookup\<close>

text \<open>
  Python's \<open>template % args\<close> for the two directives the templates of this module and
  of the backends' \<open>operators\<close> use: \<open>%s\<close> takes the next argument (all arguments here
  are strings) and \<open>%%\<close> is a percent sign. Too few or too many arguments are a
  TypeError. Other directives do not occur in these templates; the model refuses them.
\<close>

fun py_format :: "string \<Rightarrow> string list \<Rightarrow> error + string" where
  "py_format [] [] = Inr []"
| "py_format [] (a # as) = Inl TypeError"
| "py_format (c # cs) as =
     (if c \<noteq> CHR ''%'' then
        (case py_format cs as of Inl e \<Rightarrow> Inl e | Inr r \<Rightarrow> Inr (c # r))
      else
        (case cs of
           [] \<Rightarrow> Inl ValueError
         | d # ds \<Rightarrow>
             if d = CHR ''%'' then
               (case py_format ds as of Inl e \<Rightarrow> Inl e | Inr r \<Rightarrow> Inr (CHR ''%'' # r))
             else if d = CHR ''s'' then
               (case as of
                  [] \<Rightarrow> Inl TypeError
                | a # rest \<Rightarrow>
                    (case py_format ds rest of Inl e \<Rightarrow> Inl e | Inr r \<Rightarrow> Inr (a @ r)))
             else Inl ValueError))"

text \<open>The dictionary literal of \<open>as_postgresql\<close>; a name outside it is a KeyError.\<close>

definition pg_cipher_name :: "string \<Rightarrow> error + string" where
  "pg_cipher_name nm =
     (case map_of [(''AES'', ''aes''), (''Blowfish'', ''bf'')] nm of
        None \<Rightarrow> Inl KeyError
      | Some s \<Rightarrow> Inr s)"

definition pg_template :: string where
  "pg_template = ''convert_from(decrypt(dearmor(%s), %%s, '%s'), 'utf-8')%s %s''"

text \<open>
  A lookup is its \<open>lookup_name\<close> and the field of its left-hand side
  (\<open>self.lhs.output_field\<close>). \<open>process_lhs\<close> and \<open>process_rhs\<close> are Django's: what
  they return (the SQL fragment with its parameters, or the exception) is given, and so
  is the backend's dictionary \<open>connection.operators\<close>.
\<close>

record lookup =
  lookup_name :: string
  output_field :: encrypted_field

type_synonym sql = "string \<times> pyval list"

definition as_postgresql ::
  "(string \<rightharpoonup> string) \<Rightarrow> lookup \<Rightarrow> error + sql \<Rightarrow> error + sql \<Rightarrow> error + sql" where
  "as_postgresql operators l process_lhs process_rhs =
     (case process_lhs of
        Inl e \<Rightarrow> Inl e
      | Inr (lhs, lhs_params) \<Rightarrow>
     (case process_rhs of
        Inl e \<Rightarrow> Inl e
      | Inr (rhs, rhs_params) \<Rightarrow>
     (let params = lhs_params @ [key_value (cipher_key (cipher (output_field l)))] @ rhs_params
      in case operators (lookup_name l) of
           None \<Rightarrow> Inl KeyError
         | Some op \<Rightarrow>
     (case py_format op [rhs] of
        Inl e \<Rightarrow> Inl e
      | Inr rhs' \<Rightarrow>
     (case pg_cipher_name (name (cipher (output_field l))) of
        Inl e \<Rightarrow> Inl e
      | Inr cipher_nm \<Rightarrow>
     (case py_format pg_template [lhs, cipher_nm, field_cast (output_field l), rhs'] of
        Inl e \<Rightarrow> Inl e
      | Inr text \<Rightarrow> Inr (text, params)))))))"

text \<open>
  \<open>self.lhs.output_field.encrypt(param)\<close> in \<open>as_sql\<close>: the field classes of this
  module define no attribute \<open>encrypt\<close> (the method is \<open>Cipher.encrypt\<close>, reached as
  \<open>field.cipher.encrypt\<close>) and Django's \<open>Field\<close> has none, so the attribute lookup
  raises AttributeError for the first parameter it is evaluated for.
\<close>

definition output_field_encrypt :: "encrypted_field \<Rightarrow> pyval \<Rightarrow> error + pyval" where
  "output_field_encrypt f param = Inl AttributeError"

text \<open>A list comprehension whose element expression may raise.\<close>

fun comprehension :: "('a \<Rightarrow> error + 'b) \<Rightarrow> 'a list \<Rightarrow> error + 'b list" where
  "comprehension g [] = Inr []"
| "comprehension g (x # xs) =
     (case g x of
        Inl e \<Rightarrow> Inl e
      | Inr y \<Rightarrow> (case comprehension g xs of Inl e \<Rightarrow> Inl e | Inr ys \<Rightarrow> Inr (y # ys)))"

definition not_supported :: "string \<Rightarrow> error" where
  "not_supported nm =
     NotImplementedError (''Vendor 'sql' does not support lookup '' @ [CHR 0x27] @ nm @ [CHR 0x27])"

definition as_sql ::
  "(string \<rightharpoonup> string) \<Rightarrow> lookup \<Rightarrow> error + sql \<Rightarrow> error + sql \<Rightarrow> error + sql" where
  "as_sql operators l process_lhs process_rhs =
     (if lookup_name l \<noteq> ''exact'' then Inl (not_supported (lookup_name l))
      else
     (case process_lhs of
        Inl e \<Rightarrow> Inl e
      | Inr (lhs, lhs_params) \<Rightarrow>
     (case process_rhs of
        Inl e \<Rightarrow> Inl e
      | Inr (rhs, rhs_params) \<Rightarrow>
     (case comprehension (output_field_encrypt (output_field l)) rhs_params of
        Inl e \<Rightarrow> Inl e
      | Inr rhs_params_encrypted \<Rightarrow>
     (let params = lhs_params @ rhs_params_encrypted
      in case operators (lookup_name l) of
           None \<Rightarrow> Inl KeyError
         | Some op \<Rightarrow>
     (case py_format op [rhs] of
        Inl e \<Rightarrow> Inl e
      | Inr op_rhs \<Rightarrow> Inr (lhs @ op_rhs, params)))))))"

text \<open>
  The loop at the end of the module registers one lookup class for each of these names.
\<close>

definition lookup_names :: "string list" where
  "lookup_names = [''exact'', ''gt'', ''gte'', ''lt'', ''lte'']"

section \<open>An instance of the parameters\<close>

text \<open>
  The theorems below hold for every value of the parameters. To evaluate them at
  concrete inputs, this section fixes one: the codecs \<open>utf-8\<close>, \<open>latin-1\<close> and
  \<open>ascii\<close> of Python, Django's \<open>force_bytes\<close>, cipher classes with the block sizes and
  key lengths of Cryptodome's AES and Blowfish around a permutation that XORs the block
  with the key, repeated to the block's length (it stands in for the real ciphers, which
  the theorems do not look into), and an armor that writes the bytes in hexadecimal.
\<close>

definition str :: "string \<Rightarrow> pystr" where
  "str s = map of_char s"

definition utf8_encode_cp :: "nat \<Rightarrow> error + bytes" where
  "utf8_encode_cp c =
     (if c < 0x80 then Inr [of_nat c]
      else if c < 0x800 then Inr [of_nat (0xC0 + c div 64), of_nat (0x80 + c mod 64)]
      else if c < 0x10000 then
        (if 0xD800 \<le> c \<and> c \<le> 0xDFFF then Inl UnicodeEncodeError
         else Inr [of_nat (0xE0 + c div 4096), of_nat (0x80 + c div 64 mod 64),
                   of_nat (0x80 + c mod 64)])
      else if c < 0x110000 then
        Inr [of_nat (0xF0 + c div 262144), of_nat (0x80 + c div 4096 mod 64),
             of_nat (0x80 + c div 64 mod 64), of_nat (0x80 + c mod 64)]
      else Inl UnicodeEncodeError)"

fun utf8_encode :: "pystr \<Rightarrow> error + bytes" where
  "utf8_encode [] = Inr []"
| "utf8_encode (c # cs) =
     (case utf8_encode_cp c of
        Inl e \<Rightarrow> Inl e
      | Inr b \<Rightarrow> (case utf8_encode cs of Inl e \<Rightarrow> Inl e | Inr r \<Rightarrow> Inr (b @ r)))"

definition cont :: "byte \<Rightarrow> bool" where
  "cont b = (0x80 \<le> unat b \<and> unat b \<le> 0xBF)"

definition tail6 :: "byte \<Rightarrow> nat" where
  "tail6 b = unat b - 0x80"

fun utf8_decode :: "bytes \<Rightarrow> error + pystr" where
  "utf8_decode [] = Inr []"
| "utf8_decode (b0 # bs) =
     (let n = unat b0 in
      if n < 0x80 then
        (case utf8_decode bs of Inl e \<Rightarrow> Inl e | Inr r \<Rightarrow> Inr (n # r))
      else if 0xC2 \<le> n \<and> n \<le> 0xDF then
        (case bs of
           b1 # r1 \<Rightarrow>
             if cont b1 then
               (case utf8_decode r1 of
                  Inl e \<Rightarrow> Inl e
                | Inr r \<Rightarrow> Inr (((n - 0xC0) * 64 + tail6 b1) # r))
             else Inl UnicodeDecodeError
         | _ \<Rightarrow> Inl UnicodeDecodeError)
      else if 0xE0 \<le> n \<and> n \<le> 0xEF then
        (case bs of
           b1 # b2 # r2 \<Rightarrow>
             if cont b1 \<and> cont b2 \<and> (n = 0xE0 \<longrightarrow> 0xA0 \<le> unat b1)
                \<and> (n = 0xED \<longrightarrow> unat b1 \<le> 0x9F) then
               (case utf8_decode r2 of
                  Inl e \<Rightarrow> Inl e
                | Inr r \<Rightarrow> Inr (((n - 0xE0) * 4096 + tail6 b1 * 64 + tail6 b2) # r))
             else Inl UnicodeDecodeError
         | _ \<Rightarrow> Inl UnicodeDecodeError)
      else if 0xF0 \<le> n \<and> n \<le> 0xF4 then
        (case bs of
           b1 # b2 # b3 # r3 \<Rightarrow>
             if cont b1 \<and> cont b2 \<and> cont b3 \<and> (n = 0xF0 \<longrightarrow> 0x90 \<le> unat b1)
                \<and> (n = 0xF4 \<longrightarrow> unat b1 \<le> 0x8F) then
               (case utf8_decode r3 of
                  Inl e \<Rightarrow> Inl e
                | Inr r \<Rightarrow>
                    Inr (((n - 0xF0) * 262144 + tail6 b1 * 4096 + tail6 b2 * 64 + tail6 b3) # r))
             else Inl UnicodeDecodeError
         | _ \<Rightarrow> Inl UnicodeDecodeError)
      else Inl UnicodeDecodeError)"

definition narrow_encode :: "nat \<Rightarrow> pystr \<Rightarrow> error + bytes" where
  "narrow_encode limit t =
     (if \<forall>c \<in> set t. c < limit then Inr (map of_nat t) else Inl UnicodeEncodeError)"

definition narrow_decode :: "nat \<Rightarrow> bytes \<Rightarrow> error + pystr" where
  "narrow_decode limit b =
     (if \<forall>x \<in> set b. unat x < limit then Inr (map unat b) else Inl UnicodeDecodeError)"

definition codec_encode :: "pystr \<Rightarrow> string \<Rightarrow> error + bytes" where
  "codec_encode t cs =
     (if cs = ''utf-8'' then utf8_encode t
      else if cs = ''latin-1'' then narrow_encode 256 t
      else if cs = ''ascii'' then narrow_encode 128 t
      else Inl LookupError)"

definition codec_decode :: "bytes \<Rightarrow> string \<Rightarrow> error + pystr" where
  "codec_decode b cs =
     (if cs = ''utf-8'' then utf8_decode b
      else if cs = ''latin-1'' then narrow_decode 256 b
      else if cs = ''ascii'' then narrow_decode 128 b
      else Inl LookupError)"

function digits :: "nat \<Rightarrow> pystr" where
  "digits n = (if n < 10 then [48 + n] else digits (n div 10) @ [48 + n mod 10])"
  by pat_completeness auto
termination
  by (relation "measure (\<lambda>n. n)") auto

text \<open>
  Python's \<open>str(value)\<close> for the values \<open>force_bytes\<close> applies it to: \<open>None\<close>, a text
  and an integer. \<open>force_bytes\<close> handles bytes itself, so the case of bytes is never
  evaluated; it is filled with the empty text.
\<close>

definition py_str :: "pyval \<Rightarrow> pystr" where
  "py_str v =
     (case v of
        PNone \<Rightarrow> str ''None''
      | PStr t \<Rightarrow> t
      | PBytes b \<Rightarrow> []
      | PInt i \<Rightarrow> (if i < 0 then 45 # digits (nat (- i)) else digits (nat i)))"

definition django_force_bytes :: "pyval \<Rightarrow> string \<Rightarrow> error + bytes" where
  "django_force_bytes v cs =
     (case v of
        PBytes s \<Rightarrow>
          if cs = ''utf-8'' then Inr s
          else (case codec_decode s ''utf-8'' of Inl e \<Rightarrow> Inl e | Inr t \<Rightarrow> codec_encode t cs)
      | _ \<Rightarrow> codec_encode (py_str v) cs)"

definition key_stream :: "bytes \<Rightarrow> nat \<Rightarrow> bytes" where
  "key_stream k n = take n (concat (replicate n k))"

definition xor_class :: "nat \<Rightarrow> (nat \<Rightarrow> bool) \<Rightarrow> cipher_class" where
  "xor_class bs ok =
     \<lparr>block_size = bs, key_size_ok = ok,
      block_encrypt = (\<lambda>k b. xor_bytes b (key_stream k (length b))),
      block_decrypt = (\<lambda>k b. xor_bytes b (key_stream k (length b)))\<rparr>"

definition cipher_modules :: "string \<Rightarrow> cipher_class option" where
  "cipher_modules nm =
     (if nm = ''AES'' then Some (xor_class 16 (\<lambda>n. n = 16 \<or> n = 24 \<or> n = 32))
      else if nm = ''Blowfish'' then Some (xor_class 8 (\<lambda>n. 4 \<le> n \<and> n \<le> 56))
      else None)"

definition py :: python where
  "py = \<lparr>force_bytes = django_force_bytes, str_encode = codec_encode,
         bytes_decode = codec_decode, import_cipher = cipher_modules\<rparr>"

definition hex_digit :: "nat \<Rightarrow> nat" where
  "hex_digit n = (if n < 10 then 48 + n else 87 + n)"

definition hex_value :: "nat \<Rightarrow> nat option" where
  "hex_value c =
     (if 48 \<le> c \<and> c \<le> 57 then Some (c - 48)
      else if 97 \<le> c \<and> c \<le> 102 then Some (c - 87)
      else None)"

fun hex_encode :: "bytes \<Rightarrow> pystr" where
  "hex_encode [] = []"
| "hex_encode (b # bs) = hex_digit (unat b div 16) # hex_digit (unat b mod 16) # hex_encode bs"

fun hex_decode :: "pystr \<Rightarrow> error + bytes" where
  "hex_decode [] = Inr []"
| "hex_decode [c] = Inl FormatError"
| "hex_decode (c # d # cs) =
     (case (hex_value c, hex_value d) of
        (Some h, Some l) \<Rightarrow>
          (case hex_decode cs of Inl e \<Rightarrow> Inl e | Inr r \<Rightarrow> Inr (of_nat (16 * h + l) # r))
      | _ \<Rightarrow> Inl FormatError)"

text \<open>The version marker of the instance is the letter \<open>v\<close>.\<close>

definition hex_armor :: "bytes \<Rightarrow> bool \<Rightarrow> pystr" where
  "hex_armor b with_version = (if with_version then 118 # hex_encode b else hex_encode b)"

definition hex_dearmor :: "pyval \<Rightarrow> bool \<Rightarrow> error + bytes" where
  "hex_dearmor v verify =
     (case v of
        PStr (c # cs) \<Rightarrow>
          if c = 118 then hex_decode cs
          else if verify \<and> hex_value c = None then Inl FormatError
          else hex_decode (c # cs)
      | PStr [] \<Rightarrow> hex_decode []
      | _ \<Rightarrow> Inl TypeError)"

definition hex_is_encrypted :: "settings \<Rightarrow> pyval \<Rightarrow> bool" where
  "hex_is_encrypted S v =
     (case v of
        PStr t \<Rightarrow>
          (if versioned S then t \<noteq> [] \<and> hd t = 118 else True) \<and>
          (case hex_dearmor v (check_armor S) of Inl e \<Rightarrow> False | Inr b \<Rightarrow> b \<noteq> [])
      | _ \<Rightarrow> False)"

definition zero_pad_key :: "bytes \<Rightarrow> bytes" where
  "zero_pad_key k =
     (let n = length k in
      if n \<le> 16 then k @ replicate (16 - n) 0
      else if n \<le> 24 then k @ replicate (24 - n) 0
      else if n \<le> 32 then k @ replicate (32 - n) 0
      else take 32 k)"

definition base :: "settings \<Rightarrow> base_module" where
  "base S = \<lparr>aes_pad_key = zero_pad_key, armor = hex_armor, dearmor = hex_dearmor,
             is_encrypted = hex_is_encrypted S\<rparr>"

text \<open>A field as \<open>EncryptedTextField(key=...)\<close> builds it, with a key of 32 bytes.\<close>

definition key32 :: bytes where
  "key32 = map of_nat [65..<97]"

definition text_field :: encrypted_field where
  "text_field =
     \<lparr>field_class = EncryptedTextField,
      cipher = \<lparr>name = ''AES'', cipher_key = KBytes key32, charset = ''utf-8'',
                cipher_class = xor_class 16 (\<lambda>n. n = 16 \<or> n = 24 \<or> n = 32)\<rparr>\<rparr>"

text \<open>
  A field as \<open>EncryptedTextField()\<close> builds it, with the default key \<open>b''\<close>: no cipher
  context can be made from it.
\<close>

definition keyless_field :: encrypted_field where
  "keyless_field =
     \<lparr>field_class = EncryptedTextField,
      cipher = \<lparr>name = ''AES'', cipher_key = KBytes [], charset = ''utf-8'',
                cipher_class = xor_class 16 (\<lambda>n. n = 16 \<or> n = 24 \<or> n = 32)\<rparr>\<rparr>"

text \<open>
  Fields of the two date classes with the same cipher, and the entries of
  \<open>connection.operators\<close> for the five registered lookup names, which the backends of
  Django share.
\<close>

definition datetime_field :: encrypted_field where
  "datetime_field = text_field\<lparr>field_class := EncryptedDateTimeField\<rparr>"

definition date_field :: encrypted_field where
  "date_field = text_field\<lparr>field_class := EncryptedDateField\<rparr>"

definition comparison_operators :: "string \<rightharpoonup> string" where
  "comparison_operators =
     map_of [(''exact'', ''= %s''), (''gt'', ''> %s''), (''gte'', ''>= %s''),
             (''lt'', ''< %s''), (''lte'', ''<= %s'')]"

section \<open>Properties of the padding codec and of the chaining\<close>

lemma pad_length: "0 < bs \<Longrightarrow> length (pad b bs) mod bs = 0"
proof -
  assume bs: "0 < bs"
  have lt: "length b mod bs < bs" using bs by simp
  have "length (pad b bs) = length b + (bs - length b mod bs)"
    by (simp add: pad_def Let_def)
  also have "\<dots> = (length b div bs) * bs + bs"
  proof -
    have "length b = (length b div bs) * bs + length b mod bs" by simp
    then show ?thesis using lt by linarith
  qed
  finally show ?thesis by simp
qed

lemma pad_nonempty: "0 < bs \<Longrightarrow> pad b bs \<noteq> []"
proof -
  assume bs: "0 < bs"
  have "length b mod bs < bs" using bs by simp
  then have "0 < bs - length b mod bs" by simp
  then show ?thesis by (auto simp: pad_def Let_def)
qed

lemma unpad_pad:
  assumes "0 < bs" and "bs < 256"
  shows "unpad (pad b bs) bs = Inr b"
proof -
  define n where "n = bs - length b mod bs"
  have lt: "length b mod bs < bs" using assms by simp
  have n1: "1 \<le> n" and n2: "n \<le> bs" using lt by (simp_all add: n_def)
  have p: "pad b bs = b @ replicate n (of_nat n)"
    by (simp add: pad_def n_def Let_def)
  have ne: "pad b bs \<noteq> []" using assms(1) by (rule pad_nonempty)
  have al: "length (pad b bs) mod bs = 0" using assms(1) by (rule pad_length)
  have "replicate n (of_nat n :: byte) \<noteq> []" using n1 by auto
  then have "last (pad b bs) = (of_nat n :: byte)"
    using n1 by (simp add: p)
  moreover have "unat (of_nat n :: byte) = n"
    using n2 assms by (simp add: unat_of_nat)
  ultimately have l: "unat (last (pad b bs)) = n" by simp
  have t: "take (length (pad b bs) - n) (pad b bs) = b"
    by (simp add: p)
  show ?thesis
    unfolding unpad_def using ne al l n1 n2 t by (simp add: Let_def)
qed

lemma xor_bytes_length: "length a = length b \<Longrightarrow> length (xor_bytes a b) = length a"
  by (simp add: xor_bytes_def)

lemma xor_bytes_cancel: "length a = length b \<Longrightarrow> xor_bytes (xor_bytes a b) b = a"
proof (induction a arbitrary: b)
  case Nil
  then show ?case by (simp add: xor_bytes_def)
next
  case (Cons x xs)
  then obtain y ys where b: "b = y # ys" and l: "length xs = length ys"
    by (cases b) auto
  have "(x XOR y) XOR y = x" by (simp add: xor.assoc)
  then show ?case using Cons.IH [OF l] by (simp add: b xor_bytes_def)
qed

lemma aligned_ge: "0 < bs \<Longrightarrow> data \<noteq> [] \<Longrightarrow> length data mod bs = 0 \<Longrightarrow> bs \<le> length data"
  by (metis length_greater_0_conv mod_less not_le_imp_less less_irrefl)

lemma aligned_drop: "length data mod bs = 0 \<Longrightarrow> bs \<le> length data \<Longrightarrow> length (drop bs data) mod bs = 0"
  by (simp add: mod_eq_0_iff_dvd)

lemma cbc_roundtrip:
  "block_permutation E D bs \<Longrightarrow> length data mod bs = 0 \<Longrightarrow> length prev = bs \<Longrightarrow>
     length (cbc_encrypt E bs prev data) = length data \<and>
     cbc_decrypt D bs prev (cbc_encrypt E bs prev data) = data"
proof (induction E bs prev data rule: cbc_encrypt.induct)
  case (1 E bs prev data)
  show ?case
  proof (cases "bs = 0 \<or> data = []")
    case True
    then show ?thesis using "1.prems"
      by (auto simp: cbc_encrypt.simps [of E bs prev data] cbc_decrypt.simps [of D bs prev "[]"])
  next
    case False
    then have bs: "0 < bs" and ne: "data \<noteq> []" by auto
    have ge: "bs \<le> length data" using bs ne "1.prems"(2) by (rule aligned_ge)
    define blk where "blk = take bs data"
    define rest where "rest = drop bs data"
    define c where "c = E (xor_bytes blk prev)"
    have lb: "length blk = bs" using ge by (simp add: blk_def)
    have lx: "length (xor_bytes blk prev) = bs"
      using lb "1.prems"(3) by (simp add: xor_bytes_length)
    have lc: "length c = bs" and dc: "D c = xor_bytes blk prev"
      using "1.prems"(1) lx by (simp_all add: block_permutation_def c_def)
    have ar: "length rest mod bs = 0"
      unfolding rest_def using "1.prems"(2) ge by (rule aligned_drop)
    have ih: "length (cbc_encrypt E bs c rest) = length rest \<and>
              cbc_decrypt D bs c (cbc_encrypt E bs c rest) = rest"
      using "1.IH" [OF False c_def [unfolded blk_def] "1.prems"(1) ar [unfolded rest_def] lc]
      by (simp add: rest_def)
    have enc: "cbc_encrypt E bs prev data = c @ cbc_encrypt E bs c rest"
      using False by (simp add: cbc_encrypt.simps [of E bs prev data] Let_def c_def blk_def rest_def)
    have cne: "c \<noteq> []" using lc bs by auto
    have dec: "cbc_decrypt D bs prev (c @ cbc_encrypt E bs c rest) =
               xor_bytes (D c) prev @ cbc_decrypt D bs c (cbc_encrypt E bs c rest)"
      using bs cne lc
      by (simp add: cbc_decrypt.simps [of D bs prev "c @ cbc_encrypt E bs c rest"] Let_def)
    have undo: "xor_bytes (D c) prev = blk"
      using lb "1.prems"(3) by (simp add: dc xor_bytes_cancel)
    have whole: "blk @ rest = data" by (simp add: blk_def rest_def)
    have len: "length data = bs + length rest" using ge by (simp add: rest_def)
    show ?thesis using enc dec undo whole ih lc len by simp
  qed
qed

section \<open>Cipher.encrypt and Cipher.decrypt with an accepted key\<close>

lemma field_init_text_field:
  "field_init default_settings py EncryptedTextField (Some (KBytes key32)) None = Inr text_field"
  by (simp add: field_init_def Cipher_init_def default_settings_def py_def cipher_modules_def text_field_def)

lemma get_cipher_accepted:
  "cipher_key c = KBytes k \<Longrightarrow> key_size_ok (cipher_class c) (length k) \<Longrightarrow>
   get_cipher c =
     Inr \<lparr>ctx_class = cipher_class c, ctx_key = k,
          ctx_iv = replicate (block_size (cipher_class c)) 0\<rparr>"
  by (simp add: get_cipher_def cipher_new_def)

lemma encrypt_accepted:
  assumes "cipher_key c = KBytes k" and "key_size_ok (cipher_class c) (length k)"
    and "0 < block_size (cipher_class c)"
  shows "encrypt P B S c v =
     (case force_bytes P v (charset c) of
        Inl e \<Rightarrow> Inl e
      | Inr b \<Rightarrow>
          Inr (armor B
                (cbc_encrypt (block_encrypt (cipher_class c) k) (block_size (cipher_class c))
                   (replicate (block_size (cipher_class c)) 0)
                   (pad b (block_size (cipher_class c))))
                (versioned S)))"
  using assms
  by (simp add: encrypt_def get_cipher_accepted ctx_encrypt_def pad_length Let_def
           split: sum.splits)

lemma decrypt_accepted:
  assumes "cipher_key c = KBytes k" and "key_size_ok (cipher_class c) (length k)"
  shows "decrypt P B S c e =
     (case dearmor B e (check_armor S) of
        Inl x \<Rightarrow> Inl x
      | Inr d \<Rightarrow>
          if length d mod block_size (cipher_class c) \<noteq> 0 then Inl ValueError
          else
            (case unpad
                    (cbc_decrypt (block_decrypt (cipher_class c) k) (block_size (cipher_class c))
                       (replicate (block_size (cipher_class c)) 0) d)
                    (block_size (cipher_class c)) of
               Inl x \<Rightarrow> Inl x
             | Inr u \<Rightarrow> bytes_decode P u (charset c)))"
  using assms
  by (simp add: decrypt_def get_cipher_accepted ctx_decrypt_def Let_def split: sum.splits)


lemma decrypt_decodes:
  "decrypt P B S c e =
     (case unpad_decrypt_dearmor B S c e of
        Inl x \<Rightarrow> Inl x
      | Inr u \<Rightarrow> bytes_decode P u (charset c))"
  by (simp add: decrypt_def unpad_decrypt_dearmor_def split: sum.splits)

lemma encrypt_eq_iff:
  assumes key: "cipher_key c = KBytes k" "key_size_ok (cipher_class c) (length k)"
    and bs: "0 < block_size (cipher_class c)" "block_size (cipher_class c) < 256"
    and perm: "block_permutation (block_encrypt (cipher_class c) k)
                 (block_decrypt (cipher_class c) k) (block_size (cipher_class c))"
    and arm: "armor_roundtrip B S"
    and fb1: "force_bytes P v1 (charset c) = Inr b1"
    and fb2: "force_bytes P v2 (charset c) = Inr b2"
  shows "(encrypt P B S c v1 = encrypt P B S c v2) = (b1 = b2)"
proof -
  define n where "n = block_size (cipher_class c)"
  define X where "X = (\<lambda>b. cbc_encrypt (block_encrypt (cipher_class c) k) n (replicate n 0) (pad b n))"
  have e: "encrypt P B S c v = Inr (armor B (X b) (versioned S))"
    if "force_bytes P v (charset c) = Inr b" for v b
    using encrypt_accepted [OF key bs(1), of P B S v] that by (simp add: X_def n_def)
  have undo: "cbc_decrypt (block_decrypt (cipher_class c) k) n (replicate n 0) (X b) = pad b n" for b
  proof -
    have al: "length (pad b n) mod n = 0" using bs(1) by (simp add: pad_length n_def)
    have "length (X b) = length (pad b n) \<and>
          cbc_decrypt (block_decrypt (cipher_class c) k) n (replicate n 0) (X b) = pad b n"
      unfolding X_def using perm al by (intro cbc_roundtrip) (simp_all add: n_def)
    then show ?thesis by simp
  qed
  have inj: "b1 = b2" if eq: "armor B (X b1) (versioned S) = armor B (X b2) (versioned S)"
  proof -
    have d1: "dearmor B (PStr (armor B (X b1) (versioned S))) (check_armor S) = Inr (X b1)"
      and d2: "dearmor B (PStr (armor B (X b2) (versioned S))) (check_armor S) = Inr (X b2)"
      using arm by (simp_all add: armor_roundtrip_def)
    from d1 have d1': "dearmor B (PStr (armor B (X b2) (versioned S))) (check_armor S) = Inr (X b1)"
      by (simp only: eq)
    from d1' d2 have "Inr (X b1) = (Inr (X b2) :: error + bytes)" by (rule trans [OF sym])
    then have x: "X b1 = X b2" by (simp only: sum.inject)
    have "pad b1 n = cbc_decrypt (block_decrypt (cipher_class c) k) n (replicate n 0) (X b1)"
      by (rule undo [symmetric])
    also have "\<dots> = cbc_decrypt (block_decrypt (cipher_class c) k) n (replicate n 0) (X b2)"
      by (simp only: x)
    also have "\<dots> = pad b2 n" by (rule undo)
    finally have "unpad (pad b1 n) n = unpad (pad b2 n) n" by (rule arg_cong)
    moreover have "unpad (pad b1 n) n = Inr b1" and "unpad (pad b2 n) n = Inr b2"
      using bs by (simp_all add: unpad_pad n_def)
    ultimately show ?thesis by simp
  qed
  have e1: "encrypt P B S c v1 = Inr (armor B (X b1) (versioned S))" using fb1 by (rule e)
  have e2: "encrypt P B S c v2 = Inr (armor B (X b2) (versioned S))" using fb2 by (rule e)
  show ?thesis
  proof
    assume "encrypt P B S c v1 = encrypt P B S c v2"
    then have "armor B (X b1) (versioned S) = armor B (X b2) (versioned S)"
      by (simp only: e1 e2 sum.inject)
    then show "b1 = b2" by (rule inj)
  next
    assume "b1 = b2"
    then show "encrypt P B S c v1 = encrypt P B S c v2" by (simp only: e1 e2)
  qed
qed

lemma set_cipher_key_frame:
  "set_cipher_key P B c k = Inr c' \<Longrightarrow> c' = c\<lparr>cipher_key := cipher_key c'\<rparr>"
  by (auto simp: set_cipher_key_def split: if_splits pykey.splits sum.splits)

lemma set_cipher_key_other:
  "name c \<noteq> ''AES'' \<Longrightarrow> set_cipher_key P B c k = Inr (c\<lparr>cipher_key := k\<rparr>)"
  by (simp add: set_cipher_key_def)

section \<open>Properties of the instance\<close>

lemma key_stream_length: "k \<noteq> [] \<Longrightarrow> length (key_stream k n) = n"
proof -
  assume "k \<noteq> []"
  then have "1 \<le> length k" by (cases k) auto
  then have "n * 1 \<le> n * length k" by (rule mult_le_mono2)
  then show ?thesis
    by (simp add: key_stream_def length_concat sum_list_replicate)
qed

lemma xor_class_permutation:
  "k \<noteq> [] \<Longrightarrow>
   block_permutation (block_encrypt (xor_class bs ok) k) (block_decrypt (xor_class bs ok) k) bs"
  by (simp add: block_permutation_def xor_class_def xor_bytes_length key_stream_length
        xor_bytes_cancel)

lemma hex_value_digit: "n < 16 \<Longrightarrow> hex_value (hex_digit n) = Some n"
  by (simp add: hex_value_def hex_digit_def)

lemma byte_of_nibbles: "(of_nat (16 * (unat b div 16) + unat b mod 16) :: byte) = b"
  by simp

lemma hex_decode_encode: "hex_decode (hex_encode x) = Inr x"
proof (induction x)
  case Nil
  show ?case by simp
next
  case (Cons b x)
  have "unat b < 256" using unsigned_less [of b, where ?'a = nat] by simp
  then have h: "unat b div 16 < 16" by simp
  have l: "unat b mod 16 < 16" by simp
  show ?case
    using Cons.IH by (simp add: hex_value_digit [OF h] hex_value_digit [OF l] byte_of_nibbles)
qed

lemma hex_armor_roundtrip: "armor_roundtrip (base S') S"
proof -
  have "hex_dearmor (PStr (hex_armor x w)) v = Inr x" for x w v
  proof (cases w)
    case True
    then show ?thesis by (simp add: hex_dearmor_def hex_armor_def hex_decode_encode)
  next
    case False
    show ?thesis
    proof (cases x)
      case Nil
      then show ?thesis using False by (simp add: hex_dearmor_def hex_armor_def)
    next
      case (Cons b bs)
      have "unat b < 256" using unsigned_less [of b, where ?'a = nat] by simp
      then have h: "unat b div 16 < 16" by simp
      have ne: "hex_digit (unat b div 16) \<noteq> 118" using h by (simp add: hex_digit_def)
      have "hex_decode (hex_encode (b # bs)) = Inr (b # bs)" by (rule hex_decode_encode)
      then show ?thesis
        using False Cons ne hex_value_digit [OF h]
        by (simp add: hex_dearmor_def hex_armor_def)
    qed
  qed
  then show ?thesis by (simp add: armor_roundtrip_def base_def)
qed


lemma text_field_key: "cipher_key (cipher text_field) = KBytes key32"
  by (simp add: text_field_def)

lemma text_field_key_ok: "key_size_ok (cipher_class (cipher text_field)) (length key32)"
  by (simp add: text_field_def xor_class_def key32_def)

lemma text_field_block_size: "block_size (cipher_class (cipher text_field)) = 16"
  by (simp add: text_field_def xor_class_def)

lemma text_field_permutation:
  "block_permutation (block_encrypt (cipher_class (cipher text_field)) key32)
     (block_decrypt (cipher_class (cipher text_field)) key32)
     (block_size (cipher_class (cipher text_field)))"
proof -
  have "key32 \<noteq> []" by (simp add: key32_def)
  then have "block_permutation
      (block_encrypt (xor_class 16 (\<lambda>n. n = 16 \<or> n = 24 \<or> n = 32)) key32)
      (block_decrypt (xor_class 16 (\<lambda>n. n = 16 \<or> n = 24 \<or> n = 32)) key32) 16"
    by (rule xor_class_permutation)
  then show ?thesis by (simp add: text_field_def xor_class_def)
qed

lemma field_init_keyless_field:
  "field_init default_settings py EncryptedTextField None None = Inr keyless_field"
  by (simp add: field_init_def Cipher_init_def default_settings_def py_def cipher_modules_def
        keyless_field_def)

section \<open>The claims\<close>

text \<open>
  Claim C1. With a key the cipher class accepts, a value \<open>v\<close> whose bytes under the
  configured charset are \<open>b\<close>, and \<open>t\<close> the text those bytes decode to,
  \<open>Cipher.encrypt\<close> returns an envelope and \<open>Cipher.decrypt\<close> of that envelope returns
  \<open>t\<close>: decrypt is a left inverse of encrypt. The block size lies in 1..255 (a padding
  byte holds the count), the block cipher is a permutation of blocks, and \<open>dearmor\<close>
  reverses \<open>armor\<close>.
\<close>

theorem C1_decrypt_encrypt:
  assumes key: "cipher_key c = KBytes k" "key_size_ok (cipher_class c) (length k)"
    and bs: "0 < block_size (cipher_class c)" "block_size (cipher_class c) < 256"
    and perm: "block_permutation (block_encrypt (cipher_class c) k)
                 (block_decrypt (cipher_class c) k) (block_size (cipher_class c))"
    and arm: "armor_roundtrip B S"
    and enc: "force_bytes P v (charset c) = Inr b"
    and dec: "bytes_decode P b (charset c) = Inr t"
  shows "\<exists>e. encrypt P B S c v = Inr e \<and> decrypt P B S c (PStr e) = Inr t"
proof -
  define n where "n = block_size (cipher_class c)"
  define x where "x = cbc_encrypt (block_encrypt (cipher_class c) k) n (replicate n 0) (pad b n)"
  have e: "encrypt P B S c v = Inr (armor B x (versioned S))"
    using encrypt_accepted [OF key bs(1), of P B S v] enc by (simp add: x_def n_def)
  have al: "length (pad b n) mod n = 0" using bs(1) by (simp add: pad_length n_def)
  have rt: "length x = length (pad b n) \<and>
            cbc_decrypt (block_decrypt (cipher_class c) k) n (replicate n 0) x = pad b n"
    unfolding x_def using perm al by (intro cbc_roundtrip) (simp_all add: n_def)
  have d: "dearmor B (PStr (armor B x (versioned S))) (check_armor S) = Inr x"
    using arm by (simp add: armor_roundtrip_def)
  have u: "unpad (pad b n) n = Inr b" using bs by (simp add: unpad_pad n_def)
  have "decrypt P B S c (PStr (armor B x (versioned S))) = Inr t"
    using decrypt_accepted [OF key, of P B S "PStr (armor B x (versioned S))"] d rt al u dec
    by (simp add: n_def)
  with e show ?thesis by blast
qed

theorem C1_decrypt_encrypt_witness:
  "\<exists>e. encrypt py (base default_settings) default_settings (cipher text_field)
          (PStr (str ''hello world'')) = Inr e \<and>
       decrypt py (base default_settings) default_settings (cipher text_field) (PStr e)
         = Inr (str ''hello world'')"
proof (rule C1_decrypt_encrypt [where k = key32 and b = "[104,101,108,108,111,32,119,111,114,108,100]"])
  show "cipher_key (cipher text_field) = KBytes key32" by (simp add: text_field_def)
  show "key_size_ok (cipher_class (cipher text_field)) (length key32)"
    by (simp add: text_field_def xor_class_def key32_def)
  show "0 < block_size (cipher_class (cipher text_field))"
    by (simp add: text_field_def xor_class_def)
  show "block_size (cipher_class (cipher text_field)) < 256"
    by (simp add: text_field_def xor_class_def)
  have "key32 \<noteq> []" by (simp add: key32_def)
  then have "block_permutation
      (block_encrypt (xor_class 16 (\<lambda>n. n = 16 \<or> n = 24 \<or> n = 32)) key32)
      (block_decrypt (xor_class 16 (\<lambda>n. n = 16 \<or> n = 24 \<or> n = 32)) key32) 16"
    by (rule xor_class_permutation)
  then show "block_permutation (block_encrypt (cipher_class (cipher text_field)) key32)
     (block_decrypt (cipher_class (cipher text_field)) key32)
     (block_size (cipher_class (cipher text_field)))"
    by (simp add: text_field_def xor_class_def)
  show "armor_roundtrip (base default_settings) default_settings" by (rule hex_armor_roundtrip)
  show "force_bytes py (PStr (str ''hello world'')) (charset (cipher text_field))
        = Inr [104,101,108,108,111,32,119,111,114,108,100]"
    by (simp add: py_def text_field_def django_force_bytes_def codec_encode_def py_str_def
          str_def utf8_encode_cp_def)
  show "bytes_decode py [104,101,108,108,111,32,119,111,114,108,100] (charset (cipher text_field))
        = Inr (str ''hello world'')"
    by (simp add: py_def text_field_def codec_decode_def str_def)
qed

text \<open>
  Claim C2 (corrected). As the claim states it, \<open>Cipher.decrypt(e)\<close> would be the bytes
  that \<open>unpad\<close> returns. The code decodes those bytes with the configured charset and
  returns the text: for the envelope of the one-character text U+00E9 under \<open>utf-8\<close>,
  \<open>decrypt\<close> returns that one character, while unpad of the decryption of the dearmored
  envelope is the two bytes C3 A9.
\<close>

theorem C2_counterexample:
  "decrypt py (base default_settings) default_settings (cipher text_field)
     (PStr (str ''82eb4d4a4b484946474445424340415e'')) = Inr [233] \<and>
   unpad_decrypt_dearmor (base default_settings) default_settings (cipher text_field)
     (PStr (str ''82eb4d4a4b484946474445424340415e'')) = Inr [195, 169] \<and>
   PStr [233] \<noteq> PBytes [195, 169]"
  by code_simp

text \<open>
  Claim C2 as amended. With a key the cipher class accepts, \<open>Cipher.encrypt(v)\<close> is armor
  applied to the CBC encryption, from the zero block, of \<open>pad\<close> of the bytes of \<open>v\<close>
  (or the exception of \<open>force_bytes\<close>); unpad-decrypt-dearmor is \<open>unpad\<close> applied to
  the CBC decryption of \<open>dearmor(e)\<close>; and \<open>Cipher.decrypt(e)\<close> is that result decoded
  with the configured charset: pad, encrypt, armor one way and dearmor, decrypt, unpad,
  decode the other way, in that order.
\<close>

theorem C2_pad_encrypt_armor:
  assumes "cipher_key c = KBytes k" and "key_size_ok (cipher_class c) (length k)"
    and "0 < block_size (cipher_class c)"
  shows "encrypt P B S c v =
           (case force_bytes P v (charset c) of
              Inl x \<Rightarrow> Inl x
            | Inr b \<Rightarrow>
                Inr (armor B
                      (cbc_encrypt (block_encrypt (cipher_class c) k) (block_size (cipher_class c))
                         (replicate (block_size (cipher_class c)) 0)
                         (pad b (block_size (cipher_class c))))
                      (versioned S))) \<and>
         unpad_decrypt_dearmor B S c e =
           (case dearmor B e (check_armor S) of
              Inl x \<Rightarrow> Inl x
            | Inr d \<Rightarrow>
                if length d mod block_size (cipher_class c) \<noteq> 0 then Inl ValueError
                else unpad
                       (cbc_decrypt (block_decrypt (cipher_class c) k) (block_size (cipher_class c))
                          (replicate (block_size (cipher_class c)) 0) d)
                       (block_size (cipher_class c))) \<and>
         decrypt P B S c e =
           (case unpad_decrypt_dearmor B S c e of
              Inl x \<Rightarrow> Inl x
            | Inr u \<Rightarrow> bytes_decode P u (charset c))"
proof (intro conjI)
  show "encrypt P B S c v =
           (case force_bytes P v (charset c) of
              Inl x \<Rightarrow> Inl x
            | Inr b \<Rightarrow>
                Inr (armor B
                      (cbc_encrypt (block_encrypt (cipher_class c) k) (block_size (cipher_class c))
                         (replicate (block_size (cipher_class c)) 0)
                         (pad b (block_size (cipher_class c))))
                      (versioned S)))"
    using assms by (rule encrypt_accepted)
  show "unpad_decrypt_dearmor B S c e =
           (case dearmor B e (check_armor S) of
              Inl x \<Rightarrow> Inl x
            | Inr d \<Rightarrow>
                if length d mod block_size (cipher_class c) \<noteq> 0 then Inl ValueError
                else unpad
                       (cbc_decrypt (block_decrypt (cipher_class c) k) (block_size (cipher_class c))
                          (replicate (block_size (cipher_class c)) 0) d)
                       (block_size (cipher_class c)))"
    using assms(1,2)
    by (simp add: unpad_decrypt_dearmor_def get_cipher_accepted ctx_decrypt_def Let_def
          split: sum.splits)
  show "decrypt P B S c e =
           (case unpad_decrypt_dearmor B S c e of
              Inl x \<Rightarrow> Inl x
            | Inr u \<Rightarrow> bytes_decode P u (charset c))"
    by (rule decrypt_decodes)
qed

theorem C2_pad_encrypt_armor_witness:
  "encrypt py (base default_settings) default_settings (cipher text_field) (PStr [233])
     = Inr (armor (base default_settings)
             (cbc_encrypt (block_encrypt (cipher_class (cipher text_field)) key32) 16
                (replicate 16 0) (pad [195, 169] 16))
             False) \<and>
   decrypt py (base default_settings) default_settings (cipher text_field)
     (PStr (str ''82eb4d4a4b484946474445424340415e'')) = Inr [233]"
proof -
  have fb: "force_bytes py (PStr [233]) (charset (cipher text_field)) = Inr [195, 169]"
    by code_simp
  have ud: "unpad_decrypt_dearmor (base default_settings) default_settings (cipher text_field)
     (PStr (str ''82eb4d4a4b484946474445424340415e'')) = Inr [195, 169]"
    by code_simp
  have dc: "bytes_decode py [195, 169] (charset (cipher text_field)) = Inr [233]"
    by code_simp
  have bs: "0 < block_size (cipher_class (cipher text_field))"
    by (simp add: text_field_block_size)
  have ver: "versioned default_settings = False" by (simp add: default_settings_def)
  note th = C2_pad_encrypt_armor [OF text_field_key text_field_key_ok bs,
        of py "base default_settings" default_settings "PStr [233]"
          "PStr (str ''82eb4d4a4b484946474445424340415e'')"]
  from th have "encrypt py (base default_settings) default_settings (cipher text_field) (PStr [233])
     = Inr (armor (base default_settings)
             (cbc_encrypt (block_encrypt (cipher_class (cipher text_field)) key32) 16
                (replicate 16 0) (pad [195, 169] 16))
             False)"
    by (simp add: fb text_field_block_size ver)
  moreover from th have "decrypt py (base default_settings) default_settings (cipher text_field)
     (PStr (str ''82eb4d4a4b484946474445424340415e'')) = Inr [233]"
    by (simp add: ud dc)
  ultimately show ?thesis by simp
qed

text \<open>
  Claim C3. For every stored value \<open>v\<close> for which \<open>is_encrypted(v)\<close> is false,
  \<open>BaseEncryptedField.to_python(v)\<close> returns \<open>v\<close> unchanged: whatever the cipher, the
  key and the helper functions are, no exception is raised and the result does not
  depend on the cipher. The witness reads a plaintext through a field whose key no
  cipher context can be made from.
\<close>

theorem C3_plaintext_passes_through:
  "\<not> is_encrypted B v \<Longrightarrow> to_python P B S f v = Inr v"
  by (simp add: to_python_def)

theorem C3_plaintext_passes_through_witness:
  "get_cipher (cipher keyless_field) = Inl ValueError \<and>
   to_python py (base default_settings) default_settings keyless_field (PStr (str ''hello world''))
     = Inr (PStr (str ''hello world''))"
proof -
  have ne: "\<not> is_encrypted (base default_settings) (PStr (str ''hello world''))"
    by code_simp
  have gc: "get_cipher (cipher keyless_field) = Inl ValueError"
    by (simp add: get_cipher_def cipher_new_def keyless_field_def xor_class_def)
  show ?thesis
    using C3_plaintext_passes_through [OF ne, of py default_settings keyless_field] gc by simp
qed

text \<open>
  Claim C4. For every value \<open>v\<close> for which \<open>is_encrypted(v)\<close> is true,
  \<open>get_db_prep_save(v, connection)\<close> returns \<open>v\<close> unchanged, and preparing the result
  once more gives the same stored value.
\<close>

theorem C4_envelope_saved_unchanged:
  "is_encrypted B v \<Longrightarrow>
     get_db_prep_save P B S f v = Inr v \<and>
     (case get_db_prep_save P B S f v of
        Inl x \<Rightarrow> False
      | Inr w \<Rightarrow> get_db_prep_save P B S f w = get_db_prep_save P B S f v)"
  by (simp add: get_db_prep_save_def)

theorem C4_envelope_saved_unchanged_witness:
  "get_db_prep_save py (base default_settings) default_settings text_field
     (PStr (str ''82eb4d4a4b484946474445424340415e''))
     = Inr (PStr (str ''82eb4d4a4b484946474445424340415e''))"
proof -
  have e: "is_encrypted (base default_settings) (PStr (str ''82eb4d4a4b484946474445424340415e''))"
    by code_simp
  show ?thesis
    using C4_envelope_saved_unchanged [OF e, of py default_settings text_field] by simp
qed

text \<open>
  Claim C5 (the code departs from it). For the \<open>exact\<close> lookup \<open>as_sql\<close> is to encrypt
  every operand with the field's cipher and to bind the envelopes. It calls
  \<open>self.lhs.output_field.encrypt(param)\<close>, and a field has no method \<open>encrypt\<close>: with
  one operand the call raises AttributeError and no comparison is returned, while saving
  the same value through \<open>get_db_prep_save\<close> stores the envelope \<open>field.cipher.encrypt\<close>
  returns.
\<close>

theorem C5_exact_lookup_raises:
  "as_sql comparison_operators \<lparr>lookup_name = ''exact'', output_field = text_field\<rparr>
     (Inr (''t.c'', [])) (Inr (''%s'', [PStr (str ''hello world'')])) = Inl AttributeError \<and>
   get_db_prep_save py (base default_settings) default_settings text_field
     (PStr (str ''hello world'')) = Inr (PStr (str ''29272f282a6630273b262f49484b4a55''))"
  by code_simp

text \<open>
  Claim C6 (the code departs from it). \<open>Cipher.__init__\<close> writes the key it is given to
  the attribute itself, so for AES the key of a new object is the raw key; only the
  setter of \<open>cipher_key\<close> applies \<open>aes_pad_key\<close>. For the key \<open>b'secret'\<close> the new
  object keeps the six bytes, from which no AES context can be made, and assigning the
  same key to \<open>cipher_key\<close> afterwards stores \<open>aes_pad_key(b'secret')\<close>, whatever
  \<open>aes_pad_key\<close> computes.
\<close>

theorem C6_constructor_keeps_raw_key:
  "Cipher_init default_settings py ''AES'' (KBytes [115, 101, 99, 114, 101, 116]) ''utf-8''
     = Inr \<lparr>name = ''AES'', cipher_key = KBytes [115, 101, 99, 114, 101, 116],
            charset = ''utf-8'',
            cipher_class = xor_class 16 (\<lambda>n. n = 16 \<or> n = 24 \<or> n = 32)\<rparr> \<and>
   get_cipher \<lparr>name = ''AES'', cipher_key = KBytes [115, 101, 99, 114, 101, 116],
            charset = ''utf-8'',
            cipher_class = xor_class 16 (\<lambda>n. n = 16 \<or> n = 24 \<or> n = 32)\<rparr>
     = Inl ValueError \<and>
   set_cipher_key py B
       \<lparr>name = ''AES'', cipher_key = KBytes [115, 101, 99, 114, 101, 116],
        charset = ''utf-8'',
        cipher_class = xor_class 16 (\<lambda>n. n = 16 \<or> n = 24 \<or> n = 32)\<rparr>
       (KBytes [115, 101, 99, 114, 101, 116])
     = Inr \<lparr>name = ''AES'',
            cipher_key = KBytes (aes_pad_key B [115, 101, 99, 114, 101, 116]),
            charset = ''utf-8'',
            cipher_class = xor_class 16 (\<lambda>n. n = 16 \<or> n = 24 \<or> n = 32)\<rparr>"
  by (simp add: Cipher_init_def default_settings_def py_def cipher_modules_def get_cipher_def
        cipher_new_def xor_class_def set_cipher_key_def)

text \<open>
  Claim C7. For every lookup name other than \<open>exact\<close> (the module registers \<open>gt\<close>,
  \<open>gte\<close>, \<open>lt\<close> and \<open>lte\<close>), \<open>EncryptedLookup.as_sql\<close> raises NotImplementedError;
  it does so before \<open>process_lhs\<close>, \<open>process_rhs\<close>, the operators of the connection
  or the field's cipher are looked at, whatever they would return or raise.
\<close>

theorem C7_other_lookups_not_supported:
  "lookup_name l \<noteq> ''exact'' \<Longrightarrow>
     as_sql operators l process_lhs process_rhs = Inl (not_supported (lookup_name l))"
  by (simp add: as_sql_def)

theorem C7_other_lookups_not_supported_witness:
  "list_all
     (\<lambda>nm. as_sql Map.empty \<lparr>lookup_name = nm, output_field = keyless_field\<rparr>
              (Inl ValueError) (Inl TypeError) = Inl (not_supported nm))
     [''gt'', ''gte'', ''lt'', ''lte'']"
proof -
  have "as_sql Map.empty \<lparr>lookup_name = nm, output_field = keyless_field\<rparr>
          (Inl ValueError) (Inl TypeError) = Inl (not_supported nm)"
    if "nm \<noteq> ''exact''" for nm
    using C7_other_lookups_not_supported
      [of "\<lparr>lookup_name = nm, output_field = keyless_field\<rparr>" Map.empty "Inl ValueError"
        "Inl TypeError"] that
    by simp
  then show ?thesis by simp
qed

text \<open>
  Claim C8 (the code departs from it). \<open>as_postgresql\<close> appends the field's
  \<open>field_cast\<close> to the decrypted column. For \<open>EncryptedDateTimeField\<close> that attribute
  is \<open>timestamp with time zone\<close>, without the cast operator \<open>::\<close> its sibling classes
  write, so the expression for a date-time field holds the type name and no cast; for
  \<open>EncryptedDateField\<close> the same lookup casts with \<open>::date\<close>. In both the cipher name
  is \<open>aes\<close>, the key is the parameter before the operand, and the operand is a
  parameter.
\<close>

theorem C8_datetime_cast_missing:
  "as_postgresql comparison_operators \<lparr>lookup_name = ''gt'', output_field = datetime_field\<rparr>
     (Inr (''t.c'', [])) (Inr (''%s'', [PStr (str ''2020-01-01 00:00:00+00:00'')]))
     = Inr (''convert_from(decrypt(dearmor(t.c), %s, 'aes'), 'utf-8')timestamp with time zone > %s'',
            [PBytes key32, PStr (str ''2020-01-01 00:00:00+00:00'')]) \<and>
   as_postgresql comparison_operators \<lparr>lookup_name = ''gt'', output_field = date_field\<rparr>
     (Inr (''t.c'', [])) (Inr (''%s'', [PStr (str ''2020-01-01'')]))
     = Inr (''convert_from(decrypt(dearmor(t.c), %s, 'aes'), 'utf-8')::date > %s'',
            [PBytes key32, PStr (str ''2020-01-01'')])"
  by code_simp

text \<open>
  Claim C9 (corrected). As the claim states it, two values have the same envelope only
  if they are equal. \<open>Cipher.encrypt\<close> first turns the value into bytes with
  \<open>force_bytes\<close>, so the integer \<open>1\<close> and the text \<open>'1'\<close>, which are not equal, have
  the same bytes and the same envelope.
\<close>

theorem C9_counterexample:
  "encrypt py (base default_settings) default_settings (cipher text_field) (PInt 1)
     = Inr (str ''704d4c4b4a494847464544434241405f'') \<and>
   encrypt py (base default_settings) default_settings (cipher text_field) (PStr (str ''1''))
     = Inr (str ''704d4c4b4a494847464544434241405f'') \<and>
   PInt 1 \<noteq> PStr (str ''1'')"
  by code_simp

text \<open>
  Claim C9, amended. With a key the cipher class accepts, \<open>Cipher.encrypt\<close> is the
  function of the value's bytes that pads them, chains them from the zero block and
  armors the result; two values have the same envelope if and only if \<open>force_bytes\<close>
  gives them the same bytes under the configured charset; and for two texts that their
  bytes decode back to, if and only if the texts are equal. The block size lies in
  1..255, the block cipher is a permutation of blocks, and \<open>dearmor\<close> reverses \<open>armor\<close>.
\<close>

theorem C9_deterministic:
  assumes key: "cipher_key c = KBytes k" "key_size_ok (cipher_class c) (length k)"
    and bs: "0 < block_size (cipher_class c)" "block_size (cipher_class c) < 256"
    and perm: "block_permutation (block_encrypt (cipher_class c) k)
                 (block_decrypt (cipher_class c) k) (block_size (cipher_class c))"
    and arm: "armor_roundtrip B S"
    and fb1: "force_bytes P v1 (charset c) = Inr b1"
    and fb2: "force_bytes P v2 (charset c) = Inr b2"
  shows "encrypt P B S c v1 =
           Inr (armor B
                 (cbc_encrypt (block_encrypt (cipher_class c) k) (block_size (cipher_class c))
                    (replicate (block_size (cipher_class c)) 0)
                    (pad b1 (block_size (cipher_class c))))
                 (versioned S)) \<and>
         ((encrypt P B S c v1 = encrypt P B S c v2) = (b1 = b2)) \<and>
         (v1 = PStr t1 \<and> v2 = PStr t2 \<and> bytes_decode P b1 (charset c) = Inr t1 \<and>
          bytes_decode P b2 (charset c) = Inr t2 \<longrightarrow>
            (encrypt P B S c v1 = encrypt P B S c v2) = (v1 = v2))"
proof (intro conjI impI)
  show "encrypt P B S c v1 =
           Inr (armor B
                 (cbc_encrypt (block_encrypt (cipher_class c) k) (block_size (cipher_class c))
                    (replicate (block_size (cipher_class c)) 0)
                    (pad b1 (block_size (cipher_class c))))
                 (versioned S))"
    using encrypt_accepted [OF key bs(1), of P B S v1] fb1 by simp
  show iff: "(encrypt P B S c v1 = encrypt P B S c v2) = (b1 = b2)"
    using assms by (rule encrypt_eq_iff)
  assume t: "v1 = PStr t1 \<and> v2 = PStr t2 \<and> bytes_decode P b1 (charset c) = Inr t1 \<and>
          bytes_decode P b2 (charset c) = Inr t2"
  have "(b1 = b2) = (v1 = v2)"
  proof
    assume eq: "b1 = b2"
    from t have "bytes_decode P b1 (charset c) = Inr t1"
      and "bytes_decode P b2 (charset c) = Inr t2" by simp_all
    then have "Inr t1 = (Inr t2 :: error + pystr)" unfolding eq by simp
    then have "t1 = t2" by simp
    with t show "v1 = v2" by simp
  next
    assume "v1 = v2"
    with fb1 fb2 show "b1 = b2" by simp
  qed
  with iff show "(encrypt P B S c v1 = encrypt P B S c v2) = (v1 = v2)" by simp
qed

theorem C9_deterministic_witness:
  "encrypt py (base default_settings) default_settings (cipher text_field) (PStr (str ''abc''))
     \<noteq> encrypt py (base default_settings) default_settings (cipher text_field) (PStr (str ''abd'')) \<and>
   encrypt py (base default_settings) default_settings (cipher text_field) (PStr (str ''abc''))
     = Inr (armor (base default_settings)
             (cbc_encrypt (block_encrypt (cipher_class (cipher text_field)) key32) 16
                (replicate 16 0) (pad [97, 98, 99] 16))
             False)"
proof -
  have f1: "force_bytes py (PStr (str ''abc'')) (charset (cipher text_field)) = Inr [97, 98, 99]"
    by code_simp
  have f2: "force_bytes py (PStr (str ''abd'')) (charset (cipher text_field)) = Inr [97, 98, 100]"
    by code_simp
  have b1: "0 < block_size (cipher_class (cipher text_field))"
    and b2: "block_size (cipher_class (cipher text_field)) < 256"
    by (simp_all add: text_field_block_size)
  have ver: "versioned default_settings = False" by (simp add: default_settings_def)
  note th = C9_deterministic [OF text_field_key text_field_key_ok b1 b2 text_field_permutation
      hex_armor_roundtrip f1 f2, where S = default_settings and S'1 = default_settings]
  from th [THEN conjunct2, THEN conjunct1]
  have "encrypt py (base default_settings) default_settings (cipher text_field) (PStr (str ''abc''))
     \<noteq> encrypt py (base default_settings) default_settings (cipher text_field) (PStr (str ''abd''))"
    by simp
  moreover from th [THEN conjunct1] have
    "encrypt py (base default_settings) default_settings (cipher text_field) (PStr (str ''abc''))
     = Inr (armor (base default_settings)
             (cbc_encrypt (block_encrypt (cipher_class (cipher text_field)) key32) 16
                (replicate 16 0) (pad [97, 98, 99] 16))
             False)"
    by (simp add: text_field_block_size ver)
  ultimately show ?thesis by simp
qed

text \<open>
  Claim C10. \<open>from_db_value\<close> assigns the key of the context, or the current key when
  the context has none, to the cipher of the field before it calls \<open>to_python\<close>. When
  the setter accepts the key, the field the call leaves behind has the cipher \<open>c'\<close> the
  setter returns: it differs from the old cipher in the key only, the key is the assigned
  one for every cipher other than AES, \<open>to_python\<close> runs on the changed field, and the
  operations that follow on the field use \<open>c'\<close>: a later read without an override
  re-assigns the key of \<open>c'\<close>, and a later save encrypts with \<open>c'\<close>.
\<close>

theorem C10_key_override_persists:
  assumes "set_cipher_key P B (cipher f) (context_key context f) = Inr c'"
  shows "from_db_value P B tp f v context = (f\<lparr>cipher := c'\<rparr>, tp (f\<lparr>cipher := c'\<rparr>) v) \<and>
         cipher (fst (from_db_value P B tp f v context)) = c' \<and>
         c' = (cipher f)\<lparr>cipher_key := cipher_key c'\<rparr> \<and>
         (name (cipher f) \<noteq> ''AES'' \<longrightarrow> cipher_key c' = context_key context f) \<and>
         from_db_value P B tp (fst (from_db_value P B tp f v context)) v' Map.empty =
           (case set_cipher_key P B c' (cipher_key c') of
              Inl e \<Rightarrow> (f\<lparr>cipher := c'\<rparr>, Inl e)
            | Inr c'' \<Rightarrow> (f\<lparr>cipher := c''\<rparr>, tp (f\<lparr>cipher := c''\<rparr>) v')) \<and>
         get_db_prep_save P B S (fst (from_db_value P B tp f v context)) w =
           (if truthy w \<and> \<not> is_encrypted B w then
              (case encrypt P B S c' w of Inl e \<Rightarrow> Inl e | Inr a \<Rightarrow> Inr (PStr a))
            else Inr w)"
proof -
  have r: "from_db_value P B tp f v context = (f\<lparr>cipher := c'\<rparr>, tp (f\<lparr>cipher := c'\<rparr>) v)"
    using assms by (simp add: from_db_value_def context_key_def Let_def)
  have fr: "c' = (cipher f)\<lparr>cipher_key := cipher_key c'\<rparr>"
    using assms by (rule set_cipher_key_frame)
  have ot: "cipher_key c' = context_key context f" if "name (cipher f) \<noteq> ''AES''"
    using assms set_cipher_key_other [OF that, of P B "context_key context f"] by auto
  have nx: "from_db_value P B tp (f\<lparr>cipher := c'\<rparr>) v' Map.empty =
           (case set_cipher_key P B c' (cipher_key c') of
              Inl e \<Rightarrow> (f\<lparr>cipher := c'\<rparr>, Inl e)
            | Inr c'' \<Rightarrow> (f\<lparr>cipher := c''\<rparr>, tp (f\<lparr>cipher := c''\<rparr>) v'))"
    by (simp add: from_db_value_def Let_def split: sum.splits)
  have sv: "get_db_prep_save P B S (f\<lparr>cipher := c'\<rparr>) w =
           (if truthy w \<and> \<not> is_encrypted B w then
              (case encrypt P B S c' w of Inl e \<Rightarrow> Inl e | Inr a \<Rightarrow> Inr (PStr a))
            else Inr w)"
    by (simp add: get_db_prep_save_def)
  show ?thesis using r fr ot nx sv by simp
qed

theorem C10_key_override_persists_witness:
  "cipher_key (cipher text_field) = KBytes key32 \<and>
   cipher_key (cipher (fst (from_db_value py (base default_settings)
       (to_python py (base default_settings) default_settings) text_field PNone
       [''cipher_key'' \<mapsto> KBytes [115, 101, 99, 114, 101, 116]])))
     = KBytes ([115, 101, 99, 114, 101, 116] @ replicate 10 0) \<and>
   cipher_key (cipher (fst (from_db_value py (base default_settings)
       (to_python py (base default_settings) default_settings)
       (fst (from_db_value py (base default_settings)
          (to_python py (base default_settings) default_settings) text_field PNone
          [''cipher_key'' \<mapsto> KBytes [115, 101, 99, 114, 101, 116]]))
       PNone Map.empty)))
     = KBytes ([115, 101, 99, 114, 101, 116] @ replicate 10 0)"
proof -
  define c' where "c' = (cipher text_field)\<lparr>cipher_key := KBytes ([115, 101, 99, 114, 101, 116] @ replicate 10 0)\<rparr>"
  have s1: "set_cipher_key py (base default_settings) (cipher text_field)
          (context_key [''cipher_key'' \<mapsto> KBytes [115, 101, 99, 114, 101, 116]] text_field) = Inr c'"
    by (simp add: set_cipher_key_def context_key_def text_field_def base_def zero_pad_key_def c'_def)
  have s2: "set_cipher_key py (base default_settings) c' (cipher_key c') = Inr c'"
    by (simp add: set_cipher_key_def text_field_def base_def zero_pad_key_def c'_def)
  note th = C10_key_override_persists [OF s1,
      of "to_python py (base default_settings) default_settings" PNone PNone]
  from th have a: "cipher (fst (from_db_value py (base default_settings)
       (to_python py (base default_settings) default_settings) text_field PNone
       [''cipher_key'' \<mapsto> KBytes [115, 101, 99, 114, 101, 116]])) = c'"
    by simp
  note nx = th [THEN conjunct2, THEN conjunct2, THEN conjunct2, THEN conjunct2, THEN conjunct1]
  from nx have b: "cipher (fst (from_db_value py (base default_settings)
       (to_python py (base default_settings) default_settings)
       (fst (from_db_value py (base default_settings)
          (to_python py (base default_settings) default_settings) text_field PNone
          [''cipher_key'' \<mapsto> KBytes [115, 101, 99, 114, 101, 116]]))
       PNone Map.empty)) = c'"
    by (simp add: s2)
  show ?thesis by (simp add: a b text_field_key) (simp add: c'_def)
qed

end
